theory Spec2Isabelle
  imports Main
begin

section \<open>Python values, exceptions and the exit status of the process\<close>

text \<open>
  The repository holds eight bootstrap scripts of one management service. Each of them
  creates a web application object (Flask or FastAPI), attaches four route groups and,
  when run as a script, starts an HTTP listener. The scripts are modelled as statements
  over an explicit program state; a statement either completes or leaves with a Python
  exception.
\<close>

datatype pyval = PStr string | PInt int | PBool bool

text \<open>
  \<open>Exception m\<close> stands for an instance of \<open>Exception\<close> (or of a subclass) whose
  \<open>str\<close> is \<open>m\<close>. \<open>SystemExit\<close> and \<open>KeyboardInterrupt\<close> derive from
  \<open>BaseException\<close> only; a clause \<open>except Exception\<close> does not catch them.
\<close>

datatype py_exc = Exception string | SystemExit int | KeyboardInterrupt

text \<open>
  The status with which the interpreter leaves when the script ends: 0 after normal
  completion, the code of \<open>sys.exit\<close>, 1 after a traceback, 130 after an interrupt.
\<close>

fun exit_status :: "py_exc option \<Rightarrow> int" where
  "exit_status None = 0"
| "exit_status (Some (SystemExit n)) = n"
| "exit_status (Some (Exception m)) = 1"
| "exit_status (Some KeyboardInterrupt) = 130"

section \<open>Requests, responses, rules and applications\<close>

record request =
  req_method :: string
  req_path :: string
  req_headers :: "(string \<times> string) list"
  req_body :: string

text \<open>What a view function returns: a dict (sent as a JSON object) or a string.\<close>

datatype view_result = Json "(string \<times> string) list" | Text string

record response =
  resp_status :: nat
  resp_body :: view_result
  resp_headers :: "(string \<times> string) list"

datatype route_group = Scenarios | Executions | Data_providers | Ai_services

text \<open>
  A URL rule: which paths it matches, for which methods, and its view. \<open>rule_origin\<close> is
  \<open>None\<close> for a rule that the script registers itself with \<open>@app.route\<close> and names the
  route group for a rule that came with a blueprint or router.
\<close>

record rule =
  rule_match :: "string \<Rightarrow> bool"
  rule_methods :: "string list"
  rule_origin :: "route_group option"
  endpoint :: string
  view_func :: "request \<Rightarrow> view_result"

text \<open>One attachment of a route group: the keyword arguments of the call.\<close>

record mount =
  mount_group :: route_group
  mount_prefix :: "string option"
  mount_tags :: "string list"

datatype framework = Flask | FastAPI

record app =
  app_framework :: framework
  blueprints :: "mount list"
  url_map :: "rule list"
  after_request_funcs :: "(request \<Rightarrow> response \<Rightarrow> response) list"
  app_config :: "(string \<times> pyval) list"

datatype server = Werkzeug | Uvicorn

text \<open>
  One call that starts the listener, \<open>app.run(...)\<close> or \<open>uvicorn.run(app, ...)\<close>: the
  application as it is at the call, and the arguments that the call passes (\<open>None\<close> for
  an argument that is not passed).
\<close>

record run_call =
  served_app :: app
  run_server :: server
  run_host :: "pyval option"
  run_port :: "pyval option"
  run_debug :: "pyval option"

section \<open>The parts of the repository that the scripts import\<close>

text \<open>
  Modelled from the spec: \<open>utils.config.Config\<close> is imported and not defined in the
  sources. The spec calls it a configuration loader that produces a mapping of runtime
  settings (host, port, debug flag); \<open>get key default\<close> reads the mapping and gives the
  default for a key that the mapping lacks.
\<close>

record config_obj =
  settings :: "string \<rightharpoonup> pyval"
  flask_config :: "(string \<times> pyval) list"

definition config_get :: "config_obj \<Rightarrow> string \<Rightarrow> pyval \<Rightarrow> pyval" where
  "config_get c k d = (case settings c k of None \<Rightarrow> d | Some v \<Rightarrow> v)"

text \<open>
  Modelled from the spec: \<open>core.logger.Logger\<close> is imported and not defined in the
  sources. The spec calls it a process-wide diagnostic sink with the severity methods
  \<open>info\<close> and \<open>error\<close>; each call writes one line of its severity.
\<close>

datatype level = INFO | ERROR

text \<open>
  Everything else that the scripts call and the sources do not define is a parameter:
  whether the constructors \<open>Config()\<close>, \<open>Logger()\<close>, \<open>Runner()\<close> and
  \<open>runner.initialize()\<close> raise, the rules that each route group brings, whether attaching
  a group raises, whether a listener start raises (\<open>None\<close>: it returns), and the headers
  that the CORS extension adds to a response.
\<close>

record env =
  Config_new :: "py_exc + config_obj"
  Logger_new :: "py_exc option"
  Runner_new :: "py_exc option"
  Runner_initialize :: "py_exc option"
  group_rules :: "route_group \<Rightarrow> rule list"
  register_fault :: "route_group \<Rightarrow> py_exc option"
  serve :: "run_call \<Rightarrow> py_exc option"
  cors_headers :: "request \<Rightarrow> (string \<times> string) list"

section \<open>Program state and statements\<close>

text \<open>
  The module globals \<open>app\<close> and \<open>config\<close>, the lines written to the log so far, and the
  listener starts so far. Before the first assignment the globals hold placeholders.
\<close>

record state =
  the_app :: app
  the_config :: config_obj
  log_lines :: "(level \<times> string) list"
  run_calls :: "run_call list"

definition new_app :: "framework \<Rightarrow> app" where
  "new_app fw = \<lparr>app_framework = fw, blueprints = [], url_map = [],
     after_request_funcs = [], app_config = []\<rparr>"

definition init_state :: state where
  "init_state = \<lparr>the_app = new_app Flask,
     the_config = \<lparr>settings = Map.empty, flask_config = []\<rparr>,
     log_lines = [], run_calls = []\<rparr>"

text \<open>A statement maps a state to the exception it leaves with, if any, and the new state.\<close>

type_synonym stmt = "state \<Rightarrow> py_exc option \<times> state"

definition skip :: stmt where
  "skip s = (None, s)"

definition seq :: "stmt \<Rightarrow> stmt \<Rightarrow> stmt" where
  "seq c d s = (case c s of (None, s') \<Rightarrow> d s' | (Some e, s') \<Rightarrow> (Some e, s'))"

fun block :: "stmt list \<Rightarrow> stmt" where
  "block [] = skip"
| "block (c # cs) = seq c (block cs)"

text \<open>
  \<open>try: body except Exception as e: handler\<close>. The handler gets \<open>str(e)\<close>, the only use
  the scripts make of \<open>e\<close>.
\<close>

definition try_except_Exception :: "stmt \<Rightarrow> (string \<Rightarrow> stmt) \<Rightarrow> stmt" where
  "try_except_Exception body handler s =
     (case body s of
        (None, s') \<Rightarrow> (None, s')
      | (Some (Exception m), s') \<Rightarrow> handler m s'
      | (Some (SystemExit n), s') \<Rightarrow> (Some (SystemExit n), s')
      | (Some KeyboardInterrupt, s') \<Rightarrow> (Some KeyboardInterrupt, s'))"

text \<open>A call into code outside the script that has no effect on the state but may raise.\<close>

definition call_ext :: "py_exc option \<Rightarrow> stmt" where
  "call_ext r s = (r, s)"

definition raise_exc :: "py_exc \<Rightarrow> stmt" where
  "raise_exc e s = (Some e, s)"

definition sys_exit :: "int \<Rightarrow> stmt" where
  "sys_exit n s = (Some (SystemExit n), s)"

definition logger_info :: "string \<Rightarrow> stmt" where
  "logger_info msg s = (None, s\<lparr>log_lines := log_lines s @ [(INFO, msg)]\<rparr>)"

definition logger_error :: "string \<Rightarrow> stmt" where
  "logger_error msg s = (None, s\<lparr>log_lines := log_lines s @ [(ERROR, msg)]\<rparr>)"

definition error_lines :: "state \<Rightarrow> (level \<times> string) list" where
  "error_lines s = filter (\<lambda>l. fst l = ERROR) (log_lines s)"

section \<open>Framework operations\<close>

fun strip_prefix :: "string \<Rightarrow> string \<Rightarrow> string option" where
  "strip_prefix [] ys = Some ys"
| "strip_prefix (x # xs) [] = None"
| "strip_prefix (x # xs) (y # ys) = (if x = y then strip_prefix xs ys else None)"

text \<open>
  A rule of a route group, once the group is attached under a prefix: the prefix must
  lead the path and the rule must match what follows. Without a prefix the rule stays.
\<close>

definition mount_rule :: "route_group \<Rightarrow> string option \<Rightarrow> rule \<Rightarrow> rule" where
  "mount_rule g pfx r =
     r\<lparr>rule_match :=
         (\<lambda>p. case pfx of
                None \<Rightarrow> rule_match r p
              | Some q \<Rightarrow> (case strip_prefix q p of
                            None \<Rightarrow> False
                          | Some rest \<Rightarrow> rule_match r rest)),
       rule_origin := Some g\<rparr>"

definition attach :: "env \<Rightarrow> route_group \<Rightarrow> string option \<Rightarrow> string list \<Rightarrow> app \<Rightarrow> py_exc + app" where
  "attach env g pfx tgs a =
     (case register_fault env g of
        Some e \<Rightarrow> Inl e
      | None \<Rightarrow> Inr (a\<lparr>blueprints := blueprints a @
                         [\<lparr>mount_group = g, mount_prefix = pfx, mount_tags = tgs\<rparr>],
                       url_map := url_map a @ map (mount_rule g pfx) (group_rules env g)\<rparr>))"

text \<open>\<open>app.register_blueprint(bp, url_prefix=...)\<close> of Flask; \<open>url_prefix\<close> defaults to \<open>None\<close>.\<close>

definition register_blueprint :: "env \<Rightarrow> route_group \<Rightarrow> string option \<Rightarrow> app \<Rightarrow> py_exc + app" where
  "register_blueprint env g url_prefix a = attach env g url_prefix [] a"

text \<open>\<open>app.include_router(router, prefix=..., tags=...)\<close> of FastAPI; \<open>prefix\<close> defaults to
  the empty string, which is recorded as no prefix, and \<open>tags\<close> to none.\<close>

definition include_router :: "env \<Rightarrow> route_group \<Rightarrow> string \<Rightarrow> string list \<Rightarrow> app \<Rightarrow> py_exc + app" where
  "include_router env g pfx tgs a = attach env g (if pfx = [] then None else Some pfx) tgs a"

text \<open>\<open>@app.route(path)\<close> of Flask over a view: a rule for exactly this path, method GET.\<close>

definition route :: "string \<Rightarrow> string \<Rightarrow> (request \<Rightarrow> view_result) \<Rightarrow> app \<Rightarrow> py_exc + app" where
  "route pth name view a =
     Inr (a\<lparr>url_map := url_map a @
              [\<lparr>rule_match = (\<lambda>p. p = pth), rule_methods = [''GET''],
                rule_origin = None, endpoint = name, view_func = view\<rparr>]\<rparr>)"

text \<open>\<open>CORS(app)\<close>: an after-request function that adds headers to the response.\<close>

definition CORS :: "env \<Rightarrow> app \<Rightarrow> py_exc + app" where
  "CORS env a =
     Inr (a\<lparr>after_request_funcs := after_request_funcs a @
              [\<lambda>rq rs. rs\<lparr>resp_headers := resp_headers rs @ cors_headers env rq\<rparr>]\<rparr>)"

definition config_update :: "(string \<times> pyval) list \<Rightarrow> app \<Rightarrow> py_exc + app" where
  "config_update kvs a = Inr (a\<lparr>app_config := app_config a @ kvs\<rparr>)"

text \<open>Statements on the global \<open>app\<close>: an assignment, and a call that changes or raises.\<close>

definition assign_app :: "(py_exc + app) \<Rightarrow> stmt" where
  "assign_app r s = (case r of Inl e \<Rightarrow> (Some e, s) | Inr a \<Rightarrow> (None, s\<lparr>the_app := a\<rparr>))"

definition on_app :: "(app \<Rightarrow> py_exc + app) \<Rightarrow> stmt" where
  "on_app f s = assign_app (f (the_app s)) s"

definition Config_init :: "env \<Rightarrow> stmt" where
  "Config_init env s =
     (case Config_new env of Inl e \<Rightarrow> (Some e, s) | Inr c \<Rightarrow> (None, s\<lparr>the_config := c\<rparr>))"

text \<open>
  The listener start. The call is recorded with the application as it is now; it raises
  or returns as the environment decides.
\<close>

definition start_listener :: "env \<Rightarrow> server \<Rightarrow> pyval option \<Rightarrow> pyval option \<Rightarrow> pyval option \<Rightarrow> stmt" where
  "start_listener env srv h p d s =
     (let c = \<lparr>served_app = the_app s, run_server = srv, run_host = h, run_port = p,
                run_debug = d\<rparr>
      in (serve env c, s\<lparr>run_calls := run_calls s @ [c]\<rparr>))"

definition app_run :: "env \<Rightarrow> pyval option \<Rightarrow> pyval option \<Rightarrow> pyval option \<Rightarrow> stmt" where
  "app_run env h p d = start_listener env Werkzeug h p d"

definition uvicorn_run :: "env \<Rightarrow> pyval \<Rightarrow> pyval \<Rightarrow> stmt" where
  "uvicorn_run env h p = start_listener env Uvicorn (Some h) (Some p) None"

text \<open>
  The address that the listener binds. \<open>Flask.run\<close> takes 127.0.0.1 for a host that is
  not given and 5000 for a port that is not given; \<open>uvicorn.run\<close> in these scripts is
  always given both.
\<close>

definition bind_address :: "run_call \<Rightarrow> pyval \<times> pyval" where
  "bind_address c =
     ((case run_host c of None \<Rightarrow> PStr ''127.0.0.1'' | Some h \<Rightarrow> h),
      (case run_port c of None \<Rightarrow> PInt 5000 | Some p \<Rightarrow> p))"

section \<open>Request dispatch\<close>

definition make_response :: "view_result \<Rightarrow> response" where
  "make_response v = \<lparr>resp_status = 200, resp_body = v, resp_headers = []\<rparr>"

definition dispatch_request :: "app \<Rightarrow> request \<Rightarrow> response" where
  "dispatch_request a rq =
     (case find (\<lambda>r. rule_match r (req_path rq) \<and> req_method rq \<in> set (rule_methods r))
                (url_map a) of
        Some r \<Rightarrow> make_response (view_func r rq)
      | None \<Rightarrow>
          if list_ex (\<lambda>r. rule_match r (req_path rq)) (url_map a)
          then \<lparr>resp_status = 405, resp_body = Text ''Method Not Allowed'', resp_headers = []\<rparr>
          else \<lparr>resp_status = 404, resp_body = Text ''Not Found'', resp_headers = []\<rparr>)"

definition handle_request :: "app \<Rightarrow> request \<Rightarrow> response" where
  "handle_request a rq = fold (\<lambda>f rs. f rq rs) (after_request_funcs a) (dispatch_request a rq)"

section \<open>The scripts\<close>

text \<open>
  Import statements bind the names of the parameters above. Three of the files open with
  a line that names a path, and Python reads that line as code. In
  src/providers/api_provider.py and src/services/__init__.py the line is
  \<open>src/main.py:\<close>, which does not parse: the file is not compiled, and running or
  importing it raises \<open>SyntaxError\<close> before any statement is executed. In
  tests/unit/__init__.py the line is \<open>src/main.py\<close>, an expression statement that
  evaluates the name \<open>src\<close>, which is not defined, and raises \<open>NameError\<close>. Both are
  instances of \<open>Exception\<close>. In the three models the line that raises stands first and the
  rest of the file follows as it is written; it is never reached.
\<close>

definition SyntaxError :: py_exc where
  "SyntaxError = Exception ''invalid syntax''"

definition NameError :: "string \<Rightarrow> py_exc" where
  "NameError n = Exception (''name '' @ [CHR 0x27] @ n @ [CHR 0x27] @ '' is not defined'')"

definition if_main :: "string \<Rightarrow> stmt \<Rightarrow> stmt" where
  "if_main name c = (if name = ''__main__'' then c else skip)"

definition Logger_init :: "env \<Rightarrow> stmt" where
  "Logger_init env = call_ext (Logger_new env)"

fun chain :: "(app \<Rightarrow> py_exc + app) list \<Rightarrow> app \<Rightarrow> py_exc + app" where
  "chain [] a = Inr a"
| "chain (f # fs) a = (case f a of Inl e \<Rightarrow> Inl e | Inr a' \<Rightarrow> chain fs a')"

subsection \<open>src/main.py\<close>

definition health_check :: view_result where
  "health_check = Json [(''status'', ''healthy''),
                        (''service'', ''automation-framework-management'')]"

definition main_toplevel :: "env \<Rightarrow> stmt" where
  "main_toplevel env = block
     [assign_app (Inr (new_app Flask)),
      on_app (CORS env),
      Config_init env,
      (\<lambda>s. on_app (config_update (flask_config (the_config s))) s),
      Logger_init env,
      on_app (register_blueprint env Scenarios (Some ''/api/v1/scenarios'')),
      on_app (register_blueprint env Executions (Some ''/api/v1/executions'')),
      on_app (register_blueprint env Data_providers (Some ''/api/v1/data-providers'')),
      on_app (register_blueprint env Ai_services (Some ''/api/v1/ai'')),
      on_app (route ''/health'' ''health_check'' (\<lambda>rq. health_check))]"

definition main_start_management_service :: "env \<Rightarrow> stmt" where
  "main_start_management_service env =
     try_except_Exception
       (block
          [logger_info ''Starting automation framework management service...'',
           (\<lambda>s. app_run env
                  (Some (config_get (the_config s) ''server.host'' (PStr ''0.0.0.0'')))
                  (Some (config_get (the_config s) ''server.port'' (PInt 8000)))
                  (Some (config_get (the_config s) ''server.debug'' (PBool False))) s),
           logger_info ''Management service started successfully.''])
       (\<lambda>m. block
          [logger_error (''Failed to start management service: '' @ m),
           sys_exit 1])"

definition main_module :: "env \<Rightarrow> string \<Rightarrow> stmt" where
  "main_module env name = block
     [main_toplevel env,
      if_main name (main_start_management_service env)]"

subsection \<open>src/types/common_types.py\<close>

definition index :: view_result where
  "index = Text ''Welcome to the Management Service!''"

definition common_types_module :: "env \<Rightarrow> string \<Rightarrow> stmt" where
  "common_types_module env name = block
     [assign_app (Inr (new_app Flask)),
      on_app (register_blueprint env Scenarios None),
      on_app (register_blueprint env Executions None),
      on_app (register_blueprint env Data_providers None),
      on_app (register_blueprint env Ai_services None),
      on_app (route ''/'' ''index'' (\<lambda>rq. index)),
      if_main name (block
        [call_ext (Runner_new env),
         call_ext (Runner_initialize env),
         app_run env None None (Some (PBool True))])]"

subsection \<open>src/providers/api_provider.py and src/services/__init__.py\<close>

text \<open>Both files open with the line \<open>src/main.py:\<close> and define the same \<open>create_app\<close>.\<close>

definition create_app :: "env \<Rightarrow> py_exc + app" where
  "create_app env = chain
     [register_blueprint env Scenarios None,
      register_blueprint env Executions None,
      register_blueprint env Data_providers None,
      register_blueprint env Ai_services None]
     (new_app Flask)"

definition api_provider_module :: "env \<Rightarrow> string \<Rightarrow> stmt" where
  "api_provider_module env name = block
     [raise_exc SyntaxError,
      if_main name (block
        [assign_app (create_app env),
         app_run env None None (Some (PBool True))])]"

definition services_init_module :: "env \<Rightarrow> string \<Rightarrow> stmt" where
  "services_init_module env name = block
     [raise_exc SyntaxError,
      if_main name (block
        [assign_app (create_app env),
         Logger_init env,
         logger_info ''Starting Management Service...'',
         try_except_Exception
           (app_run env None None (Some (PBool True)))
           (\<lambda>m. block
              [logger_error (''Error starting the service: '' @ m),
               sys_exit 1])])]"

subsection \<open>tests/unit/__init__.py\<close>

definition tests_unit_start_management_service :: "env \<Rightarrow> stmt" where
  "tests_unit_start_management_service env =
     try_except_Exception
       (app_run env None None (Some (PBool True)))
       (\<lambda>m. block
          [logger_error (''Failed to start the management service: '' @ m),
           sys_exit 1])"

definition tests_unit_init_module :: "env \<Rightarrow> string \<Rightarrow> stmt" where
  "tests_unit_init_module env name = block
     [raise_exc (NameError ''src''),
      assign_app (Inr (new_app Flask)),
      Logger_init env,
      on_app (register_blueprint env Scenarios None),
      on_app (register_blueprint env Executions None),
      on_app (register_blueprint env Data_providers None),
      on_app (register_blueprint env Ai_services None),
      if_main name (tests_unit_start_management_service env)]"

subsection \<open>src/api/middleware/auth.py\<close>

definition auth_module :: "env \<Rightarrow> string \<Rightarrow> stmt" where
  "auth_module env name = block
     [assign_app (Inr (new_app FastAPI)),
      on_app (include_router env Scenarios ''/scenarios'' [''scenarios'']),
      on_app (include_router env Executions ''/executions'' [''executions'']),
      on_app (include_router env Data_providers ''/data-providers'' [''data providers'']),
      on_app (include_router env Ai_services ''/ai-services'' [''AI services'']),
      if_main name (uvicorn_run env (PStr ''0.0.0.0'') (PInt 8000))]"

subsection \<open>scripts/setup.py and tests/unit/test_parser.py\<close>

definition setup_module :: "env \<Rightarrow> string \<Rightarrow> stmt" where
  "setup_module env name = block
     [assign_app (Inr (new_app FastAPI)),
      on_app (include_router env Scenarios [] []),
      on_app (include_router env Executions [] []),
      on_app (include_router env Data_providers [] []),
      on_app (include_router env Ai_services [] []),
      if_main name (uvicorn_run env (PStr ''0.0.0.0'') (PInt 8000))]"

definition test_parser_module :: "env \<Rightarrow> string \<Rightarrow> stmt" where
  "test_parser_module env name = block
     [assign_app (Inr (new_app FastAPI)),
      on_app (include_router env Scenarios [] []),
      on_app (include_router env Executions [] []),
      on_app (include_router env Data_providers [] []),
      on_app (include_router env Ai_services [] []),
      if_main name (uvicorn_run env (PStr ''0.0.0.0'') (PInt 8000))]"

subsection \<open>The eight variants\<close>

datatype variant =
  Main | Common_types | Api_provider | Services_init | Tests_unit_init
| Auth | Setup | Test_parser

fun variant_module :: "variant \<Rightarrow> env \<Rightarrow> string \<Rightarrow> stmt" where
  "variant_module Main = main_module"
| "variant_module Common_types = common_types_module"
| "variant_module Api_provider = api_provider_module"
| "variant_module Services_init = services_init_module"
| "variant_module Tests_unit_init = tests_unit_init_module"
| "variant_module Auth = auth_module"
| "variant_module Setup = setup_module"
| "variant_module Test_parser = test_parser_module"

fun variant_framework :: "variant \<Rightarrow> framework" where
  "variant_framework Auth = FastAPI"
| "variant_framework Setup = FastAPI"
| "variant_framework Test_parser = FastAPI"
| "variant_framework v = Flask"

text \<open>Running a variant as a process: from the initial state, under the module name given.\<close>

definition run_variant :: "variant \<Rightarrow> env \<Rightarrow> string \<Rightarrow> py_exc option \<times> state" where
  "run_variant v env name = variant_module v env name init_state"

text \<open>An environment in which nothing raises and the route groups bring no rules, and
  environments that differ from it in the outcome of one call.\<close>

definition env_ok :: env where
  "env_ok = \<lparr>Config_new = Inr \<lparr>settings = Map.empty, flask_config = []\<rparr>,
     Logger_new = None, Runner_new = None, Runner_initialize = None,
     group_rules = (\<lambda>g. []), register_fault = (\<lambda>g. None),
     serve = (\<lambda>c. None), cors_headers = (\<lambda>rq. [])\<rparr>"

definition env_serve_raises :: "py_exc \<Rightarrow> env" where
  "env_serve_raises e = env_ok\<lparr>serve := (\<lambda>c. Some e)\<rparr>"

section \<open>Observations on a run\<close>

text \<open>The route groups attached to an application with the prefix of each, in order.\<close>

definition mount_table :: "app \<Rightarrow> (route_group \<times> string option) list" where
  "mount_table a = map (\<lambda>m. (mount_group m, mount_prefix m)) (blueprints a)"

text \<open>Whether a prefix is given and begins with \<open>q\<close>.\<close>

definition begins_with :: "string \<Rightarrow> string option \<Rightarrow> bool" where
  "begins_with q pfx = (case pfx of None \<Rightarrow> False | Some p \<Rightarrow> strip_prefix q p \<noteq> None)"

text \<open>
  The rules that a script registers itself (not those of a route group) and that answer
  GET on the path \<open>/\<close>.
\<close>

definition own_root_rules :: "app \<Rightarrow> rule list" where
  "own_root_rules a =
     filter (\<lambda>r. rule_origin r = None \<and> rule_match r ''/'' \<and> ''GET'' \<in> set (rule_methods r))
            (url_map a)"

text \<open>An environment whose configuration names a host and a port.\<close>

definition env_configured :: env where
  "env_configured = env_ok\<lparr>Config_new :=
     Inr \<lparr>settings = [''server.host'' \<mapsto> PStr ''127.0.0.1'', ''server.port'' \<mapsto> PInt 9000],
          flask_config = []\<rparr>\<rparr>"

text \<open>A statement keeps a property of the state.\<close>

definition preserves :: "(state \<Rightarrow> bool) \<Rightarrow> stmt \<Rightarrow> bool" where
  "preserves I c = (\<forall>s. I s \<longrightarrow> I (snd (c s)))"

text \<open>A property of the rules for GET / that the script registered itself.\<close>

definition own_prop :: "(rule list \<Rightarrow> bool) \<Rightarrow> state \<Rightarrow> bool" where
  "own_prop Q s = Q (own_root_rules (the_app s))"

text \<open>Environments in which one module-level call of src/main.py raises.\<close>

definition env_Config_raises :: "py_exc \<Rightarrow> env" where
  "env_Config_raises e = env_ok\<lparr>Config_new := Inl e\<rparr>"

definition env_Logger_raises :: "py_exc \<Rightarrow> env" where
  "env_Logger_raises e = env_ok\<lparr>Logger_new := Some e\<rparr>"

definition env_register_raises :: "route_group \<Rightarrow> py_exc \<Rightarrow> env" where
  "env_register_raises g e = env_ok\<lparr>register_fault := (\<lambda>h. if h = g then Some e else None)\<rparr>"

text \<open>
  An environment in which every route group brings a rule that matches every path and
  answers GET, and in which the CORS extension adds a header.
\<close>

definition env_greedy_groups :: env where
  "env_greedy_groups = env_configured
     \<lparr>group_rules := (\<lambda>g. [\<lparr>rule_match = (\<lambda>p. True), rule_methods = [''GET''],
                              rule_origin = Some g, endpoint = ''catch_all'',
                              view_func = (\<lambda>rq. Text (req_body rq))\<rparr>]),
      cors_headers := (\<lambda>rq. [(''Access-Control-Allow-Origin'', ''*'')])\<rparr>"

text \<open>A request GET /health with a header and a body.\<close>

definition get_health_loaded :: request where
  "get_health_loaded = \<lparr>req_method = ''GET'', req_path = ''/health'',
     req_headers = [(''Origin'', ''http://example.org'')], req_body = ''status?''\<rparr>"

text \<open>A request GET /health without headers or body.\<close>

definition get_health :: request where
  "get_health = \<lparr>req_method = ''GET'', req_path = ''/health'', req_headers = [], req_body = []\<rparr>"

section \<open>Unfolding the model\<close>

lemmas stmt_defs = skip_def seq_def call_ext_def raise_exc_def sys_exit_def logger_info_def logger_error_def
  assign_app_def on_app_def Config_init_def start_listener_def app_run_def uvicorn_run_def
  if_main_def Logger_init_def try_except_Exception_def

lemmas app_defs = attach_def register_blueprint_def include_router_def route_def CORS_def
  config_update_def new_app_def

lemmas module_defs = main_module_def main_toplevel_def main_start_management_service_def
  common_types_module_def create_app_def api_provider_module_def services_init_module_def
  tests_unit_start_management_service_def tests_unit_init_module_def auth_module_def
  setup_module_def test_parser_module_def

lemmas env_defs = env_ok_def env_serve_raises_def env_configured_def env_Config_raises_def
  env_Logger_raises_def env_register_raises_def env_greedy_groups_def

lemmas run_simps = run_variant_def module_defs stmt_defs app_defs init_state_def Let_def

section \<open>The health endpoint of src/main.py\<close>

lemma find_append_split:
  "find P (xs @ ys) = (case find P xs of None \<Rightarrow> find P ys | Some x \<Rightarrow> Some x)"
  by (induction xs) auto

text \<open>No rule of a group mounted under \<open>q\<close> matches a path that \<open>q\<close> does not lead.\<close>

lemma find_mounted_none:
  assumes "strip_prefix q p = None"
  shows "find (\<lambda>r. rule_match r p \<and> Q r) (map (mount_rule g (Some q)) rs) = None"
  using assms by (simp add: find_None_iff mount_rule_def)

text \<open>The application of src/main.py once the module-level code has completed.\<close>

lemma main_toplevel_url_map:
  assumes "fst (main_toplevel env s) = None"
  shows "url_map (the_app (snd (main_toplevel env s))) =
           map (mount_rule Scenarios (Some ''/api/v1/scenarios'')) (group_rules env Scenarios) @
           map (mount_rule Executions (Some ''/api/v1/executions'')) (group_rules env Executions) @
           map (mount_rule Data_providers (Some ''/api/v1/data-providers''))
             (group_rules env Data_providers) @
           map (mount_rule Ai_services (Some ''/api/v1/ai'')) (group_rules env Ai_services) @
           [\<lparr>rule_match = (\<lambda>p. p = ''/health''), rule_methods = [''GET''],
             rule_origin = None, endpoint = ''health_check'',
             view_func = (\<lambda>rq. health_check)\<rparr>]"
    and "after_request_funcs (the_app (snd (main_toplevel env s))) =
           [\<lambda>rq rs. rs\<lparr>resp_headers := resp_headers rs @ cors_headers env rq\<rparr>]"
  using assms
  by (auto simp: main_toplevel_def stmt_defs app_defs split: option.splits sum.splits if_splits)

lemma dispatch_health:
  assumes "fst (main_toplevel env s) = None"
    and "req_method rq = ''GET''" and "req_path rq = ''/health''"
  shows "dispatch_request (the_app (snd (main_toplevel env s))) rq = make_response health_check"
  using assms
  by (simp add: dispatch_request_def main_toplevel_url_map find_append_split find_mounted_none)

lemma handle_health:
  assumes "fst (main_toplevel env s) = None"
    and "req_method rq = ''GET''" and "req_path rq = ''/health''"
  shows "resp_status (handle_request (the_app (snd (main_toplevel env s))) rq) = 200"
    and "resp_body (handle_request (the_app (snd (main_toplevel env s))) rq) = health_check"
  using assms
  by (simp_all add: handle_request_def dispatch_health main_toplevel_url_map make_response_def)

text \<open>
  C1. Whatever rules the four route groups bring and whatever the configuration holds,
  once the module-level code of src/main.py has completed, the application answers every
  request GET /health with status 200 and the JSON object
  \<open>{"status": "healthy", "service": "automation-framework-management"}\<close>.
\<close>

theorem health_check_response:
  assumes "fst (main_toplevel env init_state) = None"
    and "req_method rq = ''GET''" and "req_path rq = ''/health''"
  shows "resp_status (handle_request (the_app (snd (main_toplevel env init_state))) rq) = 200 \<and>
         resp_body (handle_request (the_app (snd (main_toplevel env init_state))) rq) =
           Json [(''status'', ''healthy''), (''service'', ''automation-framework-management'')]"
  using handle_health [OF assms] by (simp add: health_check_def)

lemma main_toplevel_env_ok: "fst (main_toplevel env_ok init_state) = None"
  by (simp add: main_toplevel_def stmt_defs app_defs env_defs init_state_def)

theorem health_check_response_witness:
  "fst (main_toplevel env_ok init_state) = None \<and>
   req_method get_health = ''GET'' \<and> req_path get_health = ''/health'' \<and>
   resp_status (handle_request (the_app (snd (main_toplevel env_ok init_state))) get_health) = 200 \<and>
   resp_body (handle_request (the_app (snd (main_toplevel env_ok init_state))) get_health) =
     Json [(''status'', ''healthy''), (''service'', ''automation-framework-management'')]"
  using health_check_response [of env_ok get_health] main_toplevel_env_ok
  by (simp add: get_health_def)

section \<open>The startup routines and their exception handler\<close>

text \<open>
  C2 as stated fails: the handler is \<open>except Exception\<close>, and an exception that is not an
  instance of \<open>Exception\<close> passes it. When the listener start of src/main.py leaves with
  \<open>SystemExit(1)\<close>, the script ends with that exception and no error-level line is
  written.
\<close>

theorem start_management_service_SystemExit_counterexample:
  "map (serve (env_serve_raises (SystemExit 1)))
       (run_calls (snd (run_variant Main (env_serve_raises (SystemExit 1)) ''__main__'')))
     = [Some (SystemExit 1)] \<and>
   fst (run_variant Main (env_serve_raises (SystemExit 1)) ''__main__'') = Some (SystemExit 1) \<and>
   error_lines (snd (run_variant Main (env_serve_raises (SystemExit 1)) ''__main__'')) = []"
  by (simp add: run_simps env_defs error_lines_def config_get_def)

text \<open>
  C2, amended. In both variants that define \<open>start_management_service\<close> (src/main.py and
  tests/unit/__init__.py), from any state: if the listener start that the routine makes
  raises an instance of \<open>Exception\<close> with message \<open>m\<close>, the routine writes exactly one
  more error-level line, which carries \<open>m\<close>, and leaves with \<open>SystemExit(1)\<close>, so the
  process ends with exit status 1.
\<close>

theorem start_management_service_catches_Exception:
  "(serve env (last (run_calls (snd (main_start_management_service env s)))) = Some (Exception m) \<longrightarrow>
      fst (main_start_management_service env s) = Some (SystemExit 1) \<and>
      exit_status (fst (main_start_management_service env s)) = 1 \<and>
      error_lines (snd (main_start_management_service env s)) =
        error_lines s @ [(ERROR, ''Failed to start management service: '' @ m)]) \<and>
   (serve env (last (run_calls (snd (tests_unit_start_management_service env s)))) = Some (Exception m) \<longrightarrow>
      fst (tests_unit_start_management_service env s) = Some (SystemExit 1) \<and>
      exit_status (fst (tests_unit_start_management_service env s)) = 1 \<and>
      error_lines (snd (tests_unit_start_management_service env s)) =
        error_lines s @ [(ERROR, ''Failed to start the management service: '' @ m)])"
  by (auto simp: module_defs stmt_defs error_lines_def Let_def split: option.splits py_exc.splits)

theorem start_management_service_catches_Exception_witness:
  "serve (env_serve_raises (Exception ''Address already in use''))
     (last (run_calls (snd (main_start_management_service
        (env_serve_raises (Exception ''Address already in use'')) init_state))))
     = Some (Exception ''Address already in use'') \<and>
   serve (env_serve_raises (Exception ''Address already in use''))
     (last (run_calls (snd (tests_unit_start_management_service
        (env_serve_raises (Exception ''Address already in use'')) init_state))))
     = Some (Exception ''Address already in use'') \<and>
   fst (main_start_management_service
          (env_serve_raises (Exception ''Address already in use'')) init_state)
     = Some (SystemExit 1) \<and>
   error_lines (snd (main_start_management_service
          (env_serve_raises (Exception ''Address already in use'')) init_state))
     = [(ERROR, ''Failed to start management service: Address already in use'')] \<and>
   fst (tests_unit_start_management_service
          (env_serve_raises (Exception ''Address already in use'')) init_state)
     = Some (SystemExit 1) \<and>
   error_lines (snd (tests_unit_start_management_service
          (env_serve_raises (Exception ''Address already in use'')) init_state))
     = [(ERROR, ''Failed to start the management service: Address already in use'')]"
  using start_management_service_catches_Exception
          [of "env_serve_raises (Exception ''Address already in use'')" init_state
              "''Address already in use''"]
  by (simp add: env_defs error_lines_def init_state_def)

section \<open>The listener starts of the eight variants\<close>

text \<open>
  C3 as stated fails: src/types/common_types.py has no configuration at all and starts
  the listener with \<open>app.run(debug=True)\<close>; no host and no port are passed, and the
  listener binds the defaults of the framework, 127.0.0.1 and 5000.
\<close>

theorem default_bind_common_types_counterexample:
  "map run_host (run_calls (snd (run_variant Common_types env_ok ''__main__''))) = [None] \<and>
   map run_port (run_calls (snd (run_variant Common_types env_ok ''__main__''))) = [None] \<and>
   map bind_address (run_calls (snd (run_variant Common_types env_ok ''__main__''))) =
     [(PStr ''127.0.0.1'', PInt 5000)]"
  by (simp add: run_simps env_defs bind_address_def)

text \<open>
  C3, amended. In src/main.py, when the configuration supplies no host and no port, and
  in the three FastAPI variants always, every listener start is passed host 0.0.0.0 and
  port 8000 and binds them.
\<close>

theorem default_bind:
  assumes "v \<in> {Main, Auth, Setup, Test_parser}"
    and "v = Main \<longrightarrow> (\<forall>cfg. Config_new env = Inr cfg \<longrightarrow>
           settings cfg ''server.host'' = None \<and> settings cfg ''server.port'' = None)"
    and "c \<in> set (run_calls (snd (run_variant v env name)))"
  shows "run_host c = Some (PStr ''0.0.0.0'') \<and> run_port c = Some (PInt 8000) \<and>
         bind_address c = (PStr ''0.0.0.0'', PInt 8000)"
  using assms
  by (cases v)
     (auto simp: run_simps bind_address_def config_get_def
           split: option.splits sum.splits if_splits py_exc.splits)

theorem default_bind_witness:
  "Main \<in> {Main, Auth, Setup, Test_parser} \<and>
   Config_new env_ok = Inr \<lparr>settings = Map.empty, flask_config = []\<rparr> \<and>
   hd (run_calls (snd (run_variant Main env_ok ''__main__'')))
     \<in> set (run_calls (snd (run_variant Main env_ok ''__main__''))) \<and>
   run_host (hd (run_calls (snd (run_variant Main env_ok ''__main__''))))
     = Some (PStr ''0.0.0.0'') \<and>
   run_port (hd (run_calls (snd (run_variant Main env_ok ''__main__''))))
     = Some (PInt 8000) \<and>
   bind_address (hd (run_calls (snd (run_variant Main env_ok ''__main__''))))
     = (PStr ''0.0.0.0'', PInt 8000)"
proof -
  have new: "Config_new env_ok = Inr \<lparr>settings = Map.empty, flask_config = []\<rparr>"
    by (simp add: env_defs)
  then have cfg: "Main = Main \<longrightarrow> (\<forall>cfg. Config_new env_ok = Inr cfg \<longrightarrow>
           settings cfg ''server.host'' = None \<and> settings cfg ''server.port'' = None)"
    by auto
  have ne: "run_calls (snd (run_variant Main env_ok ''__main__'')) \<noteq> []"
    by (simp add: run_simps env_defs)
  then have mem: "hd (run_calls (snd (run_variant Main env_ok ''__main__'')))
      \<in> set (run_calls (snd (run_variant Main env_ok ''__main__'')))"
    by simp
  have "Main \<in> {Main, Auth, Setup, Test_parser}" by simp
  from default_bind [OF this cfg mem] new mem show ?thesis by simp
qed

text \<open>
  C4. In every variant, under every outcome of the calls it makes and under every module
  name, the application handed to a listener start has the four route groups attached,
  each once: scenarios, executions, data providers, AI services. No listener start sees
  an application that lacks one of them.
\<close>

theorem listener_after_four_attachments:
  assumes "c \<in> set (run_calls (snd (run_variant v env name)))"
  shows "map mount_group (blueprints (served_app c)) =
           [Scenarios, Executions, Data_providers, Ai_services]"
  using assms
  by (cases v)
     (auto simp: run_simps split: option.splits sum.splits if_splits py_exc.splits)

lemma run_calls_env_ok_nonempty:
  "run_calls (snd (run_variant Auth env_ok ''__main__'')) \<noteq> []"
  by (simp add: run_simps env_defs)

theorem listener_after_four_attachments_witness:
  "hd (run_calls (snd (run_variant Auth env_ok ''__main__'')))
     \<in> set (run_calls (snd (run_variant Auth env_ok ''__main__''))) \<and>
   map mount_group (blueprints (served_app
      (hd (run_calls (snd (run_variant Auth env_ok ''__main__''))))))
     = [Scenarios, Executions, Data_providers, Ai_services]"
  using listener_after_four_attachments
          [of "hd (run_calls (snd (run_variant Auth env_ok ''__main__'')))" Auth env_ok
              "''__main__''"]
        run_calls_env_ok_nonempty
  by simp

section \<open>Mount prefixes\<close>

text \<open>
  Whatever the module name, and so on import as well as in a run as a script: when
  attaching a group does not raise, auth.py ends with the four groups mounted at
  /scenarios, /executions, /data-providers and /ai-services, and common_types.py, setup.py
  and test_parser.py end with the four groups mounted without a prefix; main.py, when
  \<open>Config()\<close> and \<open>Logger()\<close> do not raise either, ends with the four groups mounted under
  prefixes that begin with /api/v1/.
\<close>

lemma mount_table_after_module_level:
  assumes "\<forall>g. register_fault env g = None"
  shows "mount_table (the_app (snd (run_variant Auth env name))) =
           [(Scenarios, Some ''/scenarios''), (Executions, Some ''/executions''),
            (Data_providers, Some ''/data-providers''), (Ai_services, Some ''/ai-services'')]"
    and "mount_table (the_app (snd (run_variant Common_types env name))) =
           [(Scenarios, None), (Executions, None), (Data_providers, None), (Ai_services, None)]"
    and "mount_table (the_app (snd (run_variant Setup env name))) =
           [(Scenarios, None), (Executions, None), (Data_providers, None), (Ai_services, None)]"
    and "mount_table (the_app (snd (run_variant Test_parser env name))) =
           [(Scenarios, None), (Executions, None), (Data_providers, None), (Ai_services, None)]"
  using assms
  by (simp_all add: run_simps mount_table_def split: option.splits)

lemma mount_table_main_after_module_level:
  assumes "\<forall>g. register_fault env g = None"
    and "Config_new env = Inr cfg" and "Logger_new env = None"
  shows "map fst (mount_table (the_app (snd (run_variant Main env name)))) =
           [Scenarios, Executions, Data_providers, Ai_services]"
    and "list_all (begins_with ''/api/v1/'')
           (map snd (mount_table (the_app (snd (run_variant Main env name)))))"
  using assms
  by (simp_all add: run_simps mount_table_def begins_with_def
        split: option.splits py_exc.splits)

text \<open>
  C6. Three of the six variants that the claim calls unprefixed never mount anything.
  api_provider.py and services/__init__.py leave with \<open>SyntaxError\<close> and
  tests/unit/__init__.py leaves with \<open>NameError\<close> at line 1, under every module name and
  whatever the calls further down would do; the \<open>register_blueprint\<close> calls of these
  files are not reached and the application has no route group mounted.
\<close>

theorem first_line_variants_mount_nothing:
  "fst (run_variant Api_provider env name) = Some SyntaxError \<and>
   mount_table (the_app (snd (run_variant Api_provider env name))) = [] \<and>
   fst (run_variant Services_init env name) = Some SyntaxError \<and>
   mount_table (the_app (snd (run_variant Services_init env name))) = [] \<and>
   fst (run_variant Tests_unit_init env name) = Some (NameError ''src'') \<and>
   mount_table (the_app (snd (run_variant Tests_unit_init env name))) = []"
  by (simp add: run_variant_def api_provider_module_def services_init_module_def
        tests_unit_init_module_def seq_def raise_exc_def init_state_def new_app_def
        mount_table_def)

text \<open>
  C9. Once the module-level code of src/main.py has completed, the AI services group is
  mounted at /api/v1/ai, not at /api/v1/ai-services, and the three other groups are
  mounted at /api/v1/scenarios, /api/v1/executions and /api/v1/data-providers.
\<close>

theorem main_ai_prefix:
  assumes "fst (main_toplevel env s) = None"
  shows "mount_table (the_app (snd (main_toplevel env s))) =
           [(Scenarios, Some ''/api/v1/scenarios''), (Executions, Some ''/api/v1/executions''),
            (Data_providers, Some ''/api/v1/data-providers''),
            (Ai_services, Some ''/api/v1/ai'')] \<and>
         (Ai_services, Some ''/api/v1/ai-services'')
           \<notin> set (mount_table (the_app (snd (main_toplevel env s))))"
  using assms
  by (auto simp: main_toplevel_def stmt_defs app_defs mount_table_def
           split: option.splits sum.splits if_splits)

theorem main_ai_prefix_witness:
  "fst (main_toplevel env_ok init_state) = None \<and>
   mount_table (the_app (snd (main_toplevel env_ok init_state))) =
     [(Scenarios, Some ''/api/v1/scenarios''), (Executions, Some ''/api/v1/executions''),
      (Data_providers, Some ''/api/v1/data-providers''), (Ai_services, Some ''/api/v1/ai'')]"
  using main_ai_prefix [of env_ok init_state] main_toplevel_env_ok
  by simp

section \<open>The Flask variants other than src/main.py\<close>

text \<open>
  No Flask variant other than src/main.py ever passes a host or a port to a listener
  start, and each start there is has debug set. common_types.py, run as a script that
  completes, has made exactly one such start.
\<close>

lemma other_flask_variants_pass_no_bind:
  assumes "variant_framework v = Flask" and "v \<noteq> Main"
    and "c \<in> set (run_calls (snd (run_variant v env name)))"
  shows "run_server c = Werkzeug \<and> run_host c = None \<and> run_port c = None \<and>
         run_debug c = Some (PBool True) \<and>
         bind_address c \<noteq> (PStr ''0.0.0.0'', PInt 8000)"
  using assms
  by (cases v)
     (auto simp: run_simps bind_address_def
           split: option.splits sum.splits if_splits py_exc.splits)

lemma common_types_starts_once:
  assumes "fst (run_variant Common_types env ''__main__'') = None"
  shows "map (\<lambda>c. (run_host c, run_port c, run_debug c))
           (run_calls (snd (run_variant Common_types env ''__main__'')))
         = [(None, None, Some (PBool True))]"
  using assms
  by (auto simp: run_simps split: option.splits sum.splits if_splits)

text \<open>
  C10. Three of the four Flask variants other than src/main.py never start a listener.
  api_provider.py, services/__init__.py and tests/unit/__init__.py leave at line 1 with
  an exception, the process ends with status 1, and the call \<open>app.run(debug=True)\<close>
  further down is not reached, under every module name and whatever the listener start
  would do.
\<close>

theorem first_line_variants_start_no_listener:
  "run_calls (snd (run_variant Api_provider env name)) = [] \<and>
   exit_status (fst (run_variant Api_provider env name)) = 1 \<and>
   run_calls (snd (run_variant Services_init env name)) = [] \<and>
   exit_status (fst (run_variant Services_init env name)) = 1 \<and>
   run_calls (snd (run_variant Tests_unit_init env name)) = [] \<and>
   exit_status (fst (run_variant Tests_unit_init env name)) = 1"
  by (simp add: run_variant_def api_provider_module_def services_init_module_def
        tests_unit_init_module_def seq_def raise_exc_def init_state_def
        SyntaxError_def NameError_def)

section \<open>Properties kept by the statements of a script\<close>

lemma preserves_skip: "preserves I skip"
  by (simp add: preserves_def skip_def)

lemma preserves_seq:
  assumes "preserves I c" and "preserves I d"
  shows "preserves I (seq c d)"
  unfolding preserves_def
proof (intro allI impI)
  fix s assume "I s"
  then have c: "I (snd (c s))" using assms(1) by (simp add: preserves_def)
  show "I (snd (seq c d s))"
  proof (cases "fst (c s)")
    case None
    then have "seq c d s = d (snd (c s))"
      by (cases "c s") (simp add: seq_def)
    then show ?thesis using c assms(2) by (simp add: preserves_def)
  next
    case (Some e)
    then have "seq c d s = (Some e, snd (c s))"
      by (cases "c s") (simp add: seq_def)
    then show ?thesis using c by simp
  qed
qed

lemma preserves_try:
  assumes "preserves I b" and "\<And>m. preserves I (h m)"
  shows "preserves I (try_except_Exception b h)"
  unfolding preserves_def
proof (intro allI impI)
  fix s assume "I s"
  then have b: "I (snd (b s))" using assms(1) by (simp add: preserves_def)
  show "I (snd (try_except_Exception b h s))"
  proof (cases "fst (b s)")
    case None
    then have "try_except_Exception b h s = (None, snd (b s))"
      by (cases "b s") (simp add: try_except_Exception_def)
    then show ?thesis using b by simp
  next
    case (Some e)
    show ?thesis
    proof (cases e)
      case (Exception m)
      with Some have "try_except_Exception b h s = h m (snd (b s))"
        by (cases "b s") (simp add: try_except_Exception_def)
      then show ?thesis using b assms(2) [of m] by (simp add: preserves_def)
    next
      case (SystemExit n)
      with Some have "try_except_Exception b h s = (Some e, snd (b s))"
        by (cases "b s") (simp add: try_except_Exception_def)
      then show ?thesis using b by simp
    next
      case KeyboardInterrupt
      with Some have "try_except_Exception b h s = (Some e, snd (b s))"
        by (cases "b s") (simp add: try_except_Exception_def)
      then show ?thesis using b by simp
    qed
  qed
qed

lemma preserves_if_main: "preserves I c \<Longrightarrow> preserves I (if_main name c)"
  by (simp add: if_main_def preserves_skip)

section \<open>The handler for GET /\<close>

lemma preserves_own_untouched:
  "preserves (own_prop Q) (call_ext r)"
  "preserves (own_prop Q) (raise_exc e)"
  "preserves (own_prop Q) (sys_exit n)"
  "preserves (own_prop Q) (logger_info msg)"
  "preserves (own_prop Q) (logger_error msg)"
  "preserves (own_prop Q) (Config_init env)"
  "preserves (own_prop Q) (Logger_init env)"
  "preserves (own_prop Q) (app_run env h p d)"
  "preserves (own_prop Q) (uvicorn_run env hv pv)"
  by (simp_all add: preserves_def own_prop_def stmt_defs Let_def split: sum.splits)

lemma preserves_own_on_app:
  assumes "\<And>a a'. f a = Inr a' \<Longrightarrow> Q (own_root_rules a) \<Longrightarrow> Q (own_root_rules a')"
  shows "preserves (own_prop Q) (on_app f)"
  using assms by (auto simp: preserves_def own_prop_def on_app_def assign_app_def split: sum.splits)

lemma preserves_own_assign_app:
  assumes "\<And>a. r = Inr a \<Longrightarrow> Q (own_root_rules a)"
  shows "preserves (own_prop Q) (assign_app r)"
  using assms by (auto simp: preserves_def own_prop_def assign_app_def split: sum.splits)

lemma filter_mounted_own:
  "filter (\<lambda>r. rule_origin r = None \<and> Q r) (map (mount_rule g pfx) rs) = []"
  by (induction rs) (auto simp: mount_rule_def)

lemma own_root_rules_attach:
  "attach env g pfx tgs a = Inr a' \<Longrightarrow> own_root_rules a' = own_root_rules a"
  by (auto simp: attach_def own_root_rules_def filter_mounted_own split: option.splits)

lemma own_root_rules_route:
  "route pth n v a = Inr a' \<Longrightarrow>
   own_root_rules a' = own_root_rules a @
     (if pth = ''/'' then [\<lparr>rule_match = (\<lambda>p. p = pth), rule_methods = [''GET''],
        rule_origin = None, endpoint = n, view_func = v\<rparr>] else [])"
  by (auto simp: route_def own_root_rules_def)

lemma own_root_rules_other_ops:
  "CORS env a = Inr a' \<Longrightarrow> own_root_rules a' = own_root_rules a"
  "config_update kvs a = Inr a' \<Longrightarrow> own_root_rules a' = own_root_rules a"
  by (auto simp: CORS_def config_update_def own_root_rules_def)

lemma own_root_rules_new_app: "own_root_rules (new_app fw) = []"
  by (simp add: new_app_def own_root_rules_def)

lemma own_root_rules_chain:
  assumes "\<And>f b b'. f \<in> set fs \<Longrightarrow> f b = Inr b' \<Longrightarrow> own_root_rules b' = own_root_rules b"
    and "chain fs a = Inr a'"
  shows "own_root_rules a' = own_root_rules a"
  using assms
proof (induction fs arbitrary: a)
  case Nil
  then show ?case by simp
next
  case (Cons f fs)
  from Cons.prems(2) obtain b where b: "f a = Inr b" and rest: "chain fs b = Inr a'"
    by (auto split: sum.splits)
  have "own_root_rules b = own_root_rules a"
    using Cons.prems(1) [of f a b] b by simp
  moreover have "own_root_rules a' = own_root_rules b"
  proof (rule Cons.IH)
    fix g c c'
    assume "g \<in> set fs" and "g c = Inr c'"
    then show "own_root_rules c' = own_root_rules c"
      using Cons.prems(1) [of g c c'] by simp
  next
    show "chain fs b = Inr a'" by (rule rest)
  qed
  ultimately show ?case by simp
qed

lemma own_root_rules_create_app:
  assumes "create_app env = Inr a"
  shows "own_root_rules a = []"
proof -
  have "own_root_rules a = own_root_rules (new_app Flask)"
    using assms unfolding create_app_def
    by (rule own_root_rules_chain [rotated])
       (auto simp: register_blueprint_def dest: own_root_rules_attach)
  then show ?thesis by (simp add: own_root_rules_new_app)
qed

lemmas preserves_rules = preserves_seq preserves_skip preserves_if_main preserves_try
  preserves_own_untouched

lemma preserves_own_attach:
  "preserves (own_prop Q) (on_app (register_blueprint env g pfx))"
  "preserves (own_prop Q) (on_app (include_router env g p tgs))"
  "preserves (own_prop Q) (on_app (CORS env))"
  "preserves (own_prop Q) (\<lambda>s. on_app (config_update (flask_config (the_config s))) s)"
  by (auto simp: preserves_def own_prop_def on_app_def assign_app_def register_blueprint_def
        include_router_def
        split: sum.splits
        dest: own_root_rules_attach own_root_rules_other_ops)

lemma preserves_own_main_run:
  "preserves (own_prop Q)
     (\<lambda>s. app_run env
        (Some (config_get (the_config s) ''server.host'' (PStr ''0.0.0.0'')))
        (Some (config_get (the_config s) ''server.port'' (PInt 8000)))
        (Some (config_get (the_config s) ''server.debug'' (PBool False))) s)"
  by (simp add: preserves_def own_prop_def stmt_defs Let_def)

lemma preserves_own_starts:
  "preserves (own_prop Q) (main_start_management_service env)"
  "preserves (own_prop Q) (tests_unit_start_management_service env)"
  by (simp_all add: main_start_management_service_def tests_unit_start_management_service_def
        preserves_rules preserves_own_main_run)

lemma preserves_own_fresh:
  "preserves (own_prop (\<lambda>rs. rs = [])) (assign_app (Inr (new_app fw)))"
  "preserves (own_prop (\<lambda>rs. rs = [])) (assign_app (create_app env))"
  "preserves (own_prop (\<lambda>rs. rs = []))
     (on_app (route ''/health'' ''health_check'' (\<lambda>rq. health_check)))"
  by (auto intro!: preserves_own_assign_app preserves_own_on_app
        simp: own_root_rules_new_app own_root_rules_create_app dest: own_root_rules_route)

lemmas preserves_intros = preserves_seq preserves_skip preserves_if_main preserves_try
  preserves_own_untouched preserves_own_attach preserves_own_starts preserves_own_main_run

lemma no_own_root_other:
  assumes "v \<noteq> Common_types"
  shows "preserves (own_prop (\<lambda>rs. rs = [])) (variant_module v env name)"
proof (cases v)
  case Main
  show ?thesis
    unfolding Main variant_module.simps main_module_def main_toplevel_def block.simps
    by (intro preserves_intros preserves_own_fresh)
next
  case Common_types
  then show ?thesis using assms by simp
next
  case Api_provider
  show ?thesis
    unfolding Api_provider variant_module.simps api_provider_module_def block.simps
    by (intro preserves_intros preserves_own_fresh)
next
  case Services_init
  show ?thesis
    unfolding Services_init variant_module.simps services_init_module_def block.simps
    by (intro preserves_intros preserves_own_fresh)
next
  case Tests_unit_init
  show ?thesis
    unfolding Tests_unit_init variant_module.simps tests_unit_init_module_def block.simps
    by (intro preserves_intros preserves_own_fresh)
next
  case Auth
  show ?thesis
    unfolding Auth variant_module.simps auth_module_def block.simps
    by (intro preserves_intros preserves_own_fresh)
next
  case Setup
  show ?thesis
    unfolding Setup variant_module.simps setup_module_def block.simps
    by (intro preserves_intros preserves_own_fresh)
next
  case Test_parser
  show ?thesis
    unfolding Test_parser variant_module.simps test_parser_module_def block.simps
    by (intro preserves_intros preserves_own_fresh)
qed

text \<open>In src/types/common_types.py every own rule for GET / has the view \<open>index\<close>.\<close>

lemma preserves_own_index:
  "preserves (own_prop (\<lambda>rs. \<forall>r \<in> set rs. view_func r = (\<lambda>rq. index)))
     (assign_app (Inr (new_app fw)))"
  "preserves (own_prop (\<lambda>rs. \<forall>r \<in> set rs. view_func r = (\<lambda>rq. index)))
     (on_app (route ''/'' ''index'' (\<lambda>rq. index)))"
proof -
  show "preserves (own_prop (\<lambda>rs. \<forall>r \<in> set rs. view_func r = (\<lambda>rq. index)))
     (assign_app (Inr (new_app fw)))"
    by (rule preserves_own_assign_app) (auto simp: own_root_rules_new_app)
next
  show "preserves (own_prop (\<lambda>rs. \<forall>r \<in> set rs. view_func r = (\<lambda>rq. index)))
     (on_app (route ''/'' ''index'' (\<lambda>rq. index)))"
  proof (rule preserves_own_on_app)
    fix a a'
    assume "route ''/'' ''index'' (\<lambda>rq. index) a = Inr a'"
      and old: "\<forall>r \<in> set (own_root_rules a). view_func r = (\<lambda>rq. index)"
    then have "own_root_rules a' = own_root_rules a @
        [\<lparr>rule_match = (\<lambda>p. p = ''/''), rule_methods = [''GET''],
          rule_origin = None, endpoint = ''index'', view_func = (\<lambda>rq. index)\<rparr>]"
      using own_root_rules_route [of "''/''" "''index''" "\<lambda>rq. index" a a'] by simp
    with old show "\<forall>r \<in> set (own_root_rules a'). view_func r = (\<lambda>rq. index)"
      by auto
  qed
qed

lemma common_types_own_index:
  "preserves (own_prop (\<lambda>rs. \<forall>r \<in> set rs. view_func r = (\<lambda>rq. index)))
     (common_types_module env name)"
  unfolding common_types_module_def block.simps
  by (intro preserves_intros preserves_own_index)

lemma own_prop_init: "own_prop (\<lambda>rs. rs = []) init_state"
  by (simp add: own_prop_def init_state_def own_root_rules_new_app)

lemma own_root_rules_other:
  assumes "v \<noteq> Common_types"
  shows "own_root_rules (the_app (snd (run_variant v env name))) = []"
  using no_own_root_other [OF assms, of env name] own_prop_init
  by (simp add: preserves_def own_prop_def run_variant_def)

lemma own_root_rules_common_types_view:
  assumes "r \<in> set (own_root_rules (the_app (snd (run_variant Common_types env name))))"
  shows "view_func r = (\<lambda>rq. index)"
proof -
  have "own_prop (\<lambda>rs. \<forall>r \<in> set rs. view_func r = (\<lambda>rq. index)) init_state"
    by (simp add: own_prop_def init_state_def own_root_rules_new_app)
  then have "own_prop (\<lambda>rs. \<forall>r \<in> set rs. view_func r = (\<lambda>rq. index))
               (snd (common_types_module env name init_state))"
    using common_types_own_index [of env name] by (simp add: preserves_def)
  then show ?thesis using assms by (simp add: own_prop_def run_variant_def)
qed

lemma own_root_rules_common_types:
  assumes "\<forall>g. register_fault env g = None"
  shows "own_root_rules (the_app (snd (run_variant Common_types env name))) =
      [\<lparr>rule_match = (\<lambda>p. p = ''/''), rule_methods = [''GET''],
                rule_origin = None, endpoint = ''index'', view_func = (\<lambda>rq. index)\<rparr>]"
  using assms
  by (simp add: run_simps own_root_rules_def filter_mounted_own
           split: option.splits)

text \<open>
  C5. Exactly one variant, src/types/common_types.py, registers a handler of its own for
  GET /: in no other variant does the application ever hold such a rule, every such rule
  returns the string "Welcome to the Management Service!", and when attaching the four
  groups does not raise, common_types.py holds exactly one.
\<close>

theorem root_route_only_common_types:
  "(own_root_rules (the_app (snd (run_variant v env name))) \<noteq> [] \<longrightarrow> v = Common_types) \<and>
   (\<forall>r \<in> set (own_root_rules (the_app (snd (run_variant v env name)))).
       view_func r rq = Text ''Welcome to the Management Service!'') \<and>
   ((\<forall>g. register_fault env g = None) \<longrightarrow>
       length (own_root_rules (the_app (snd (run_variant Common_types env name)))) = 1)"
proof (intro conjI impI ballI)
  assume "own_root_rules (the_app (snd (run_variant v env name))) \<noteq> []"
  then show "v = Common_types" using own_root_rules_other [of v env name] by blast
next
  fix r assume r: "r \<in> set (own_root_rules (the_app (snd (run_variant v env name))))"
  then have "v = Common_types" using own_root_rules_other [of v env name] by fastforce
  with r have "view_func r = (\<lambda>rq. index)"
    using own_root_rules_common_types_view by simp
  then show "view_func r rq = Text ''Welcome to the Management Service!''"
    by (simp add: index_def)
next
  assume "\<forall>g. register_fault env g = None"
  then show "length (own_root_rules (the_app (snd (run_variant Common_types env name)))) = 1"
    by (simp add: own_root_rules_common_types)
qed

theorem root_route_only_common_types_witness:
  "(\<forall>g. register_fault env_ok g = None) \<and>
   own_root_rules (the_app (snd (run_variant Common_types env_ok ''__main__''))) \<noteq> [] \<and>
   hd (own_root_rules (the_app (snd (run_variant Common_types env_ok ''__main__''))))
     \<in> set (own_root_rules (the_app (snd (run_variant Common_types env_ok ''__main__'')))) \<and>
   view_func (hd (own_root_rules (the_app (snd (run_variant Common_types env_ok ''__main__'')))))
       get_health
     = Text ''Welcome to the Management Service!'' \<and>
   length (own_root_rules (the_app (snd (run_variant Common_types env_ok ''__main__'')))) = 1"
proof -
  have nf: "\<forall>g. register_fault env_ok g = None"
    by (simp add: env_defs)
  have len: "length (own_root_rules (the_app (snd (run_variant Common_types env_ok ''__main__'')))) = 1"
    using root_route_only_common_types [of Common_types env_ok "''__main__''" get_health] nf by blast
  then have ne: "own_root_rules (the_app (snd (run_variant Common_types env_ok ''__main__''))) \<noteq> []"
    by auto
  then have mem: "hd (own_root_rules (the_app (snd (run_variant Common_types env_ok ''__main__''))))
     \<in> set (own_root_rules (the_app (snd (run_variant Common_types env_ok ''__main__''))))"
    by simp
  show ?thesis
    using root_route_only_common_types [of Common_types env_ok "''__main__''" get_health] nf ne mem by blast
qed

section \<open>What the exception handler of src/main.py covers\<close>

lemma seq_raises:
  assumes "fst (c s) = Some e"
  shows "seq c d s = c s"
  using assms by (cases "c s") (simp add: seq_def)

lemma seq_completes:
  assumes "fst (c s) = None"
  shows "seq c d s = d (snd (c s))"
  using assms by (cases "c s") (simp add: seq_def)

lemma seq_skip: "seq c skip s = c s"
  by (cases "c s") (simp add: seq_def skip_def split: option.splits)

lemma main_module_toplevel_raises:
  assumes "fst (main_toplevel env s) = Some e"
  shows "main_module env name s = main_toplevel env s"
  using assms by (simp add: main_module_def seq_raises)

lemma main_module_toplevel_completes:
  assumes "fst (main_toplevel env s) = None"
  shows "main_module env ''__main__'' s =
           main_start_management_service env (snd (main_toplevel env s))"
  using assms by (simp add: main_module_def seq_completes seq_skip if_main_def)

lemma main_toplevel_quiet:
  "log_lines (snd (main_toplevel env s)) = log_lines s"
  "run_calls (snd (main_toplevel env s)) = run_calls s"
  by (auto simp: main_toplevel_def stmt_defs app_defs split: option.splits sum.splits)

lemma main_toplevel_Config_raises:
  assumes "Config_new env = Inl e"
  shows "fst (main_toplevel env s) = Some e"
  using assms by (simp add: main_toplevel_def stmt_defs app_defs)

lemma main_toplevel_Logger_raises:
  assumes "Config_new env = Inr cfg" and "Logger_new env = Some e"
  shows "fst (main_toplevel env s) = Some e"
  using assms by (simp add: main_toplevel_def stmt_defs app_defs)

lemma main_toplevel_register_raises:
  assumes "Config_new env = Inr cfg" and "Logger_new env = None"
    and "register_fault env g = Some e"
  shows "fst (main_toplevel env s) \<noteq> None \<and>
         fst (main_toplevel env s) \<in> {register_fault env Scenarios, register_fault env Executions,
            register_fault env Data_providers, register_fault env Ai_services}"
  using assms
  by (cases g) (auto simp: main_toplevel_def stmt_defs app_defs split: option.splits)

lemma main_start_Exception:
  assumes "serve env (last (run_calls (snd (main_start_management_service env s)))) = Some (Exception m)"
  shows "fst (main_start_management_service env s) = Some (SystemExit 1)"
    and "error_lines (snd (main_start_management_service env s)) =
           error_lines s @ [(ERROR, ''Failed to start management service: '' @ m)]"
  using assms
  by (auto simp: main_start_management_service_def stmt_defs error_lines_def Let_def
        split: option.splits py_exc.splits)

text \<open>
  C8. In src/main.py the handler of \<open>start_management_service\<close> covers its \<open>try\<close> block
  only. An exception raised by \<open>Config()\<close>, by \<open>Logger()\<close> or by a blueprint
  registration at module level ends the script with that exception: nothing is written to
  the log, so no error-level line, and no listener is started. An \<open>Exception\<close> raised by
  the listener start, inside the \<open>try\<close> block, is logged and turned into exit status 1.
\<close>

theorem module_level_exceptions_not_handled:
  "(Config_new env = Inl e \<longrightarrow>
      fst (run_variant Main env name) = Some e \<and>
      log_lines (snd (run_variant Main env name)) = [] \<and>
      run_calls (snd (run_variant Main env name)) = []) \<and>
   (Config_new env = Inr cfg \<and> Logger_new env = Some e \<longrightarrow>
      fst (run_variant Main env name) = Some e \<and>
      log_lines (snd (run_variant Main env name)) = [] \<and>
      run_calls (snd (run_variant Main env name)) = []) \<and>
   (Config_new env = Inr cfg \<and> Logger_new env = None \<and> register_fault env g = Some e \<longrightarrow>
      fst (run_variant Main env name) \<noteq> None \<and>
      fst (run_variant Main env name) \<in> {register_fault env Scenarios,
          register_fault env Executions, register_fault env Data_providers,
          register_fault env Ai_services} \<and>
      log_lines (snd (run_variant Main env name)) = [] \<and>
      run_calls (snd (run_variant Main env name)) = []) \<and>
   (fst (main_toplevel env init_state) = None \<and>
    serve env (last (run_calls (snd (run_variant Main env ''__main__'')))) = Some (Exception m) \<longrightarrow>
      fst (run_variant Main env ''__main__'') = Some (SystemExit 1) \<and>
      error_lines (snd (run_variant Main env ''__main__'')) =
        [(ERROR, ''Failed to start management service: '' @ m)])"
proof -
  have quiet: "log_lines (snd (main_toplevel env init_state)) = []"
      "run_calls (snd (main_toplevel env init_state)) = []"
    by (simp_all add: main_toplevel_quiet init_state_def)
  have stop: "run_variant Main env name = main_toplevel env init_state"
    if "fst (main_toplevel env init_state) \<noteq> None"
    using that main_module_toplevel_raises [of env init_state _ name]
    by (auto simp: run_variant_def)
  have a: "fst (run_variant Main env name) = Some e \<and>
      log_lines (snd (run_variant Main env name)) = [] \<and>
      run_calls (snd (run_variant Main env name)) = []"
    if "Config_new env = Inl e"
    using that stop quiet main_toplevel_Config_raises [of env e init_state] by simp
  have b: "fst (run_variant Main env name) = Some e \<and>
      log_lines (snd (run_variant Main env name)) = [] \<and>
      run_calls (snd (run_variant Main env name)) = []"
    if "Config_new env = Inr cfg" and "Logger_new env = Some e"
    using that stop quiet main_toplevel_Logger_raises [of env cfg e init_state] by simp
  have c: "fst (run_variant Main env name) \<noteq> None \<and>
      fst (run_variant Main env name) \<in> {register_fault env Scenarios,
          register_fault env Executions, register_fault env Data_providers,
          register_fault env Ai_services} \<and>
      log_lines (snd (run_variant Main env name)) = [] \<and>
      run_calls (snd (run_variant Main env name)) = []"
    if "Config_new env = Inr cfg" and "Logger_new env = None" and "register_fault env g = Some e"
    using that stop quiet main_toplevel_register_raises [of env cfg g e init_state] by simp
  have d: "fst (run_variant Main env ''__main__'') = Some (SystemExit 1) \<and>
      error_lines (snd (run_variant Main env ''__main__'')) =
        [(ERROR, ''Failed to start management service: '' @ m)]"
    if top: "fst (main_toplevel env init_state) = None"
      and run: "serve env (last (run_calls (snd (run_variant Main env ''__main__'')))) = Some (Exception m)"
  proof -
    have eq: "run_variant Main env ''__main__'' =
        main_start_management_service env (snd (main_toplevel env init_state))"
      using top by (simp add: run_variant_def main_module_toplevel_completes)
    have "error_lines (snd (main_toplevel env init_state)) = []"
      using quiet by (simp add: error_lines_def)
    then show ?thesis
      using main_start_Exception [of env "snd (main_toplevel env init_state)" m] run eq
      by simp
  qed
  show ?thesis using a b c d by blast
qed

theorem module_level_exceptions_not_handled_witness:
  "Config_new (env_Config_raises (Exception ''no config file'')) = Inl (Exception ''no config file'') \<and>
   fst (run_variant Main (env_Config_raises (Exception ''no config file'')) ''__main__'')
     = Some (Exception ''no config file'') \<and>
   log_lines (snd (run_variant Main (env_Config_raises (Exception ''no config file'')) ''__main__''))
     = [] \<and>
   Config_new (env_Logger_raises (Exception ''no log file''))
     = Inr \<lparr>settings = Map.empty, flask_config = []\<rparr> \<and>
   Logger_new (env_Logger_raises (Exception ''no log file'')) = Some (Exception ''no log file'') \<and>
   fst (run_variant Main (env_Logger_raises (Exception ''no log file'')) ''__main__'')
     = Some (Exception ''no log file'') \<and>
   log_lines (snd (run_variant Main (env_Logger_raises (Exception ''no log file'')) ''__main__''))
     = [] \<and>
   Logger_new (env_register_raises Executions (Exception ''name collision'')) = None \<and>
   register_fault (env_register_raises Executions (Exception ''name collision'')) Executions
     = Some (Exception ''name collision'') \<and>
   fst (run_variant Main (env_register_raises Executions (Exception ''name collision'')) ''__main__'')
     \<noteq> None \<and>
   log_lines (snd (run_variant Main
       (env_register_raises Executions (Exception ''name collision'')) ''__main__'')) = [] \<and>
   fst (main_toplevel (env_serve_raises (Exception ''Address already in use'')) init_state) = None \<and>
   serve (env_serve_raises (Exception ''Address already in use''))
     (last (run_calls (snd (run_variant Main
        (env_serve_raises (Exception ''Address already in use'')) ''__main__''))))
     = Some (Exception ''Address already in use'') \<and>
   fst (run_variant Main (env_serve_raises (Exception ''Address already in use'')) ''__main__'')
     = Some (SystemExit 1) \<and>
   error_lines (snd (run_variant Main
       (env_serve_raises (Exception ''Address already in use'')) ''__main__''))
     = [(ERROR, ''Failed to start management service: Address already in use'')]"
proof -
  have top: "fst (main_toplevel (env_serve_raises (Exception ''Address already in use''))
      init_state) = None"
    by (simp add: main_toplevel_def stmt_defs app_defs env_defs init_state_def)
  have hyps:
    "Config_new (env_Config_raises (Exception ''no config file''))
       = Inl (Exception ''no config file'')"
    "Config_new (env_Logger_raises (Exception ''no log file''))
       = Inr \<lparr>settings = Map.empty, flask_config = []\<rparr>"
    "Logger_new (env_Logger_raises (Exception ''no log file'')) = Some (Exception ''no log file'')"
    "Config_new (env_register_raises Executions (Exception ''name collision''))
       = Inr \<lparr>settings = Map.empty, flask_config = []\<rparr>"
    "Logger_new (env_register_raises Executions (Exception ''name collision'')) = None"
    "register_fault (env_register_raises Executions (Exception ''name collision'')) Executions
       = Some (Exception ''name collision'')"
    "serve (env_serve_raises (Exception ''Address already in use''))
       (last (run_calls (snd (run_variant Main
          (env_serve_raises (Exception ''Address already in use'')) ''__main__''))))
       = Some (Exception ''Address already in use'')"
    by (simp_all add: env_defs)
  show ?thesis
    using module_level_exceptions_not_handled
            [of "env_Config_raises (Exception ''no config file'')"
                "Exception ''no config file''" "''__main__''" _ _ _]
          module_level_exceptions_not_handled
            [of "env_Logger_raises (Exception ''no log file'')"
                "Exception ''no log file''" "''__main__''"
                "\<lparr>settings = Map.empty, flask_config = []\<rparr>" _ _]
          module_level_exceptions_not_handled
            [of "env_register_raises Executions (Exception ''name collision'')"
                "Exception ''name collision''" "''__main__''"
                "\<lparr>settings = Map.empty, flask_config = []\<rparr>" Executions _]
          module_level_exceptions_not_handled
            [of "env_serve_raises (Exception ''Address already in use'')"
                _ "''__main__''" _ _ "''Address already in use''"]
          top hyps
    by simp
qed

section \<open>Determinism of the health endpoint\<close>

text \<open>
  C7. The view \<open>health_check\<close> takes no argument and reads nothing. Any two requests
  GET /health, whatever their headers and bodies, in any two runs of src/main.py,
  whatever the configuration, the route groups, the CORS headers and the starting state
  of each run, get the same status code and the same status payload.
\<close>

theorem health_check_deterministic:
  assumes "fst (main_toplevel env1 s1) = None" and "fst (main_toplevel env2 s2) = None"
    and "req_method rq1 = ''GET''" and "req_path rq1 = ''/health''"
    and "req_method rq2 = ''GET''" and "req_path rq2 = ''/health''"
  shows "resp_status (handle_request (the_app (snd (main_toplevel env1 s1))) rq1) =
         resp_status (handle_request (the_app (snd (main_toplevel env2 s2))) rq2) \<and>
         resp_body (handle_request (the_app (snd (main_toplevel env1 s1))) rq1) =
         resp_body (handle_request (the_app (snd (main_toplevel env2 s2))) rq2)"
  using handle_health [OF assms(1,3,4)] handle_health [OF assms(2,5,6)] by simp

lemma main_toplevel_env_greedy_groups:
  "fst (main_toplevel env_greedy_groups init_state) = None"
  by (simp add: main_toplevel_def stmt_defs app_defs env_defs init_state_def)

theorem health_check_deterministic_witness:
  "fst (main_toplevel env_ok init_state) = None \<and>
   fst (main_toplevel env_greedy_groups init_state) = None \<and>
   req_method get_health = ''GET'' \<and> req_path get_health = ''/health'' \<and>
   req_method get_health_loaded = ''GET'' \<and> req_path get_health_loaded = ''/health'' \<and>
   resp_status (handle_request (the_app (snd (main_toplevel env_ok init_state))) get_health) =
   resp_status (handle_request (the_app (snd (main_toplevel env_greedy_groups init_state)))
     get_health_loaded) \<and>
   resp_body (handle_request (the_app (snd (main_toplevel env_ok init_state))) get_health) =
   resp_body (handle_request (the_app (snd (main_toplevel env_greedy_groups init_state)))
     get_health_loaded)"
  using health_check_deterministic
          [of env_ok init_state env_greedy_groups init_state get_health get_health_loaded]
        main_toplevel_env_ok main_toplevel_env_greedy_groups
  by (simp add: get_health_def get_health_loaded_def)

end
